theory Spec2Isabelle
  imports Main "HOL-Library.Word"
begin

section \<open>Python strings and POSIX path functions\<close>

text \<open>
  Paths and messages are \<open>string\<close>s. File contents are lists of bytes; the text handed to
  and returned by the generic file helpers is a list of Unicode code points, since the
  codecs of the source distinguish ASCII, UTF-8 and arbitrary code points.
\<close>

type_synonym byte = "8 word"
type_synonym ustr = "nat list"

definition startswith :: "'a list \<Rightarrow> 'a list \<Rightarrow> bool" where
  "startswith s p = (take (length p) s = p)"

definition endswith :: "'a list \<Rightarrow> 'a list \<Rightarrow> bool" where
  "endswith s p = (length p \<le> length s \<and> drop (length s - length p) s = p)"

text \<open>\<open>s.split(c)\<close> for a one-character separator.\<close>

fun split_on :: "char \<Rightarrow> string \<Rightarrow> string list" where
  "split_on c [] = [[]]"
| "split_on c (x # xs) =
     (if x = c then [] # split_on c xs
      else (case split_on c xs of
              [] \<Rightarrow> [[x]]
            | w # ws \<Rightarrow> (x # w) # ws))"

text \<open>\<open>s.strip(c)\<close> and \<open>s.rstrip(c)\<close> for a one-character set.\<close>

definition rstrip :: "char \<Rightarrow> string \<Rightarrow> string" where
  "rstrip c s = rev (dropWhile (\<lambda>x. x = c) (rev s))"

definition strip :: "char \<Rightarrow> string \<Rightarrow> string" where
  "strip c s = rstrip c (dropWhile (\<lambda>x. x = c) s)"

text \<open>\<open>sep.join(parts)\<close>.\<close>

fun str_join :: "string \<Rightarrow> string list \<Rightarrow> string" where
  "str_join sep [] = []"
| "str_join sep [x] = x"
| "str_join sep (x # y # ys) = x @ sep @ str_join sep (y # ys)"

text \<open>\<open>posixpath.join(a, *p)\<close>: an absolute component discards what came before it.\<close>

fun path_join :: "string \<Rightarrow> string list \<Rightarrow> string" where
  "path_join a [] = a"
| "path_join a (b # p) =
     (if startswith b ''/'' then path_join b p
      else if a = [] \<or> endswith a ''/'' then path_join (a @ b) p
      else path_join (a @ ''/'' @ b) p)"

text \<open>\<open>posixpath.split(p)\<close>, \<open>dirname\<close> and \<open>basename\<close>.\<close>

definition path_split :: "string \<Rightarrow> string \<times> string" where
  "path_split p =
     (let tail = rev (takeWhile (\<lambda>x. x \<noteq> CHR ''/'') (rev p));
          head = rev (dropWhile (\<lambda>x. x \<noteq> CHR ''/'') (rev p))
      in (if head \<noteq> [] \<and> head \<noteq> replicate (length head) CHR ''/''
          then rstrip CHR ''/'' head else head, tail))"

definition dirname :: "string \<Rightarrow> string" where
  "dirname p = fst (path_split p)"

definition basename :: "string \<Rightarrow> string" where
  "basename p = snd (path_split p)"

text \<open>
  \<open>posixpath.normpath\<close>: the loop over the components, with \<open>initial_slashes\<close> and the
  list \<open>new_comps\<close> built so far.
\<close>

fun normpath_loop :: "nat \<Rightarrow> string list \<Rightarrow> string list \<Rightarrow> string list" where
  "normpath_loop i new [] = new"
| "normpath_loop i new (x # xs) =
     (if x = [] \<or> x = ''.'' then normpath_loop i new xs
      else if x \<noteq> ''..'' \<or> (i = 0 \<and> new = []) \<or> (new \<noteq> [] \<and> last new = ''..'')
        then normpath_loop i (new @ [x]) xs
      else if new \<noteq> [] then normpath_loop i (butlast new) xs
      else normpath_loop i new xs)"

definition normpath :: "string \<Rightarrow> string" where
  "normpath path =
     (if path = [] then ''.''
      else
        let i = (if startswith path ''/''
                 then (if startswith path ''//'' \<and> \<not> startswith path ''///'' then 2 else 1)
                 else (0::nat));
            comps = normpath_loop i [] (split_on CHR ''/'' path);
            p = replicate i CHR ''/'' @ str_join ''/'' comps
        in if p = [] then ''.'' else p)"

text \<open>\<open>posixpath.abspath\<close>; the working directory of the process is the parameter \<open>cwd\<close>.\<close>

definition abspath :: "string \<Rightarrow> string \<Rightarrow> string" where
  "abspath cwd path =
     normpath (if startswith path ''/'' then path else path_join cwd [path])"

section \<open>Exceptions\<close>

text \<open>
  \<open>OSError\<close> carries \<open>errno\<close> and \<open>filename\<close>; \<open>HTTPError\<close> carries the status code, the
  log message and the optional \<open>reason\<close>. The codec exceptions carry the library's message.
\<close>

datatype exn =
    OSError nat "string option"
  | HTTPError nat string "string option"
  | UnicodeError string
  | BinasciiError string
  | OtherError string

definition EPERM :: nat where "EPERM = 1"
definition ENOENT :: nat where "ENOENT = 2"
definition EACCES :: nat where "EACCES = 13"
definition EEXIST :: nat where "EEXIST = 17"
definition ENOTDIR :: nat where "ENOTDIR = 20"
definition EISDIR :: nat where "EISDIR = 21"
definition ELOOP :: nat where "ELOOP = 40"

text \<open>\<open>str(e)\<close>, as the \<open>%s\<close> conversion of a message uses it.\<close>

fun str_exn :: "exn \<Rightarrow> string" where
  "str_exn (OSError n f) = ''[Errno] '' @ (case f of None \<Rightarrow> [] | Some p \<Rightarrow> p)"
| "str_exn (HTTPError c m r) = m"
| "str_exn (UnicodeError m) = m"
| "str_exn (BinasciiError m) = m"
| "str_exn (OtherError m) = m"

fun status_code :: "exn \<Rightarrow> nat option" where
  "status_code (HTTPError c m r) = Some c"
| "status_code _ = None"

section \<open>Codecs of the standard library\<close>

text \<open>\<open>content.encode('ascii')\<close>: fails on the first code point above 127.\<close>

definition encode_ascii :: "ustr \<Rightarrow> exn + byte list" where
  "encode_ascii s =
     (if \<forall>c \<in> set s. c < 128 then Inr (map of_nat s)
      else Inl (UnicodeError ''ascii codec cannot encode character: ordinal not in range(128)''))"

text \<open>\<open>b.decode('ascii')\<close>.\<close>

definition decode_ascii :: "byte list \<Rightarrow> exn + ustr" where
  "decode_ascii bs =
     (if \<forall>b \<in> set bs. unat b < 128 then Inr (map unat bs)
      else Inl (UnicodeError ''ascii codec cannot decode byte: ordinal not in range(128)''))"

text \<open>
  \<open>content.encode('utf8')\<close>, code point by code point; surrogates are refused, as are
  values beyond the Unicode range (which no Python string holds).
\<close>

definition utf8_encode_char :: "nat \<Rightarrow> byte list option" where
  "utf8_encode_char c =
     (if c < 0x80 then Some [of_nat c]
      else if c < 0x800 then Some [of_nat (0xC0 + c div 64), of_nat (0x80 + c mod 64)]
      else if c < 0x10000 then
        (if 0xD800 \<le> c \<and> c \<le> 0xDFFF then None
         else Some [of_nat (0xE0 + c div 4096), of_nat (0x80 + (c div 64) mod 64),
                    of_nat (0x80 + c mod 64)])
      else if c < 0x110000 then
        Some [of_nat (0xF0 + c div 262144), of_nat (0x80 + (c div 4096) mod 64),
              of_nat (0x80 + (c div 64) mod 64), of_nat (0x80 + c mod 64)]
      else None)"

fun utf8_encode_loop :: "ustr \<Rightarrow> byte list option" where
  "utf8_encode_loop [] = Some []"
| "utf8_encode_loop (c # cs) =
     (case utf8_encode_char c of
        None \<Rightarrow> None
      | Some bs \<Rightarrow> (case utf8_encode_loop cs of None \<Rightarrow> None | Some r \<Rightarrow> Some (bs @ r)))"

definition encode_utf8 :: "ustr \<Rightarrow> exn + byte list" where
  "encode_utf8 s =
     (case utf8_encode_loop s of
        None \<Rightarrow> Inl (UnicodeError ''utf-8 codec cannot encode character: surrogates not allowed'')
      | Some bs \<Rightarrow> Inr bs)"

text \<open>
  \<open>b.decode('utf8')\<close> in strict mode: \<open>need\<close> continuation bytes are still expected for
  the code point \<open>cp\<close>, and the next one must lie in \<open>lo..hi\<close> (which is how overlong
  forms, surrogates and values above U+10FFFF are refused).
\<close>

fun utf8_decode_loop :: "nat \<Rightarrow> nat \<Rightarrow> nat \<Rightarrow> nat \<Rightarrow> byte list \<Rightarrow> ustr option" where
  "utf8_decode_loop need cp lo hi [] = (if need = 0 then Some [] else None)"
| "utf8_decode_loop need cp lo hi (b # bs) =
     (let n = unat b in
      if need = 0 then
        (if n \<le> 0x7F then map_option (Cons n) (utf8_decode_loop 0 0 0x80 0xBF bs)
         else if 0xC2 \<le> n \<and> n \<le> 0xDF then utf8_decode_loop 1 (n mod 32) 0x80 0xBF bs
         else if 0xE0 \<le> n \<and> n \<le> 0xEF then
           utf8_decode_loop 2 (n mod 16) (if n = 0xE0 then 0xA0 else 0x80)
             (if n = 0xED then 0x9F else 0xBF) bs
         else if 0xF0 \<le> n \<and> n \<le> 0xF4 then
           utf8_decode_loop 3 (n mod 8) (if n = 0xF0 then 0x90 else 0x80)
             (if n = 0xF4 then 0x8F else 0xBF) bs
         else None)
      else if lo \<le> n \<and> n \<le> hi then
        (if need = 1 then map_option (Cons (cp * 64 + n mod 64)) (utf8_decode_loop 0 0 0x80 0xBF bs)
         else utf8_decode_loop (need - 1) (cp * 64 + n mod 64) 0x80 0xBF bs)
      else None)"

definition decode_utf8 :: "byte list \<Rightarrow> exn + ustr" where
  "decode_utf8 bs =
     (case utf8_decode_loop 0 0 0x80 0xBF bs of
        None \<Rightarrow> Inl (UnicodeError ''utf-8 codec cannot decode bytes'')
      | Some s \<Rightarrow> Inr s)"

section \<open>Base64 of the standard library\<close>

text \<open>
  \<open>binascii.b2a_base64\<close>: the alphabet \<open>A-Z a-z 0-9 + /\<close> by position, three bytes to four
  characters, \<open>=\<close> padding, and a newline at the end of the line.
\<close>

definition table_b2a :: "nat \<Rightarrow> byte" where
  "table_b2a k =
     of_nat (if k < 26 then 65 + k else if k < 52 then 71 + k
             else if k < 62 then k - 4 else if k = 62 then 43 else 47)"

definition PAD :: byte where "PAD = 61"
definition LF :: byte where "LF = 10"

fun b2a_groups :: "byte list \<Rightarrow> byte list" where
  "b2a_groups [] = []"
| "b2a_groups [a] =
     [table_b2a (unat a div 4), table_b2a ((unat a mod 4) * 16), PAD, PAD]"
| "b2a_groups [a, b] =
     [table_b2a (unat a div 4), table_b2a ((unat a mod 4) * 16 + unat b div 16),
      table_b2a ((unat b mod 16) * 4), PAD]"
| "b2a_groups (a # b # c # r) =
     [table_b2a (unat a div 4), table_b2a ((unat a mod 4) * 16 + unat b div 16),
      table_b2a ((unat b mod 16) * 4 + unat c div 64), table_b2a (unat c mod 64)]
     @ b2a_groups r"

definition b2a_base64 :: "byte list \<Rightarrow> byte list" where
  "b2a_base64 s = b2a_groups s @ [LF]"

text \<open>
  \<open>base64.encodestring\<close>: one line of output for every \<open>MAXBINSIZE = 57\<close> bytes of input,
  that is 76 characters and a newline.
\<close>

definition MAXBINSIZE :: nat where "MAXBINSIZE = 57"

fun encodestring :: "byte list \<Rightarrow> byte list" where
  "encodestring s =
     (if s = [] then []
      else b2a_base64 (take (Suc 56) s) @ encodestring (drop (Suc 56) s))"

declare encodestring.simps [simp del]

text \<open>
  \<open>binascii.a2b_base64\<close>, the lenient decoder: characters outside the alphabet are
  skipped, a pad ends the input once two characters of a quad have been read, and
  leftover bits at the end are an error.
\<close>

definition table_a2b :: "byte \<Rightarrow> nat option" where
  "table_a2b c =
     (let n = unat c in
      if 65 \<le> n \<and> n \<le> 90 then Some (n - 65)
      else if 97 \<le> n \<and> n \<le> 122 then Some (n - 71)
      else if 48 \<le> n \<and> n \<le> 57 then Some (n + 4)
      else if n = 43 then Some 62
      else if n = 47 then Some 63
      else None)"

text \<open>\<open>binascii_find_valid\<close>: the \<open>(num+1)\<close>-th valid character, the pad counting as valid.\<close>

fun find_valid :: "byte list \<Rightarrow> nat \<Rightarrow> byte option" where
  "find_valid [] num = None"
| "find_valid (c # s) num =
     (if c = PAD \<or> table_a2b c \<noteq> None
      then (if num = 0 then Some c else find_valid s (num - 1))
      else find_valid s num)"

text \<open>The loop, returning the final \<open>leftbits\<close> and the bytes produced.\<close>

fun a2b_loop :: "nat \<Rightarrow> nat \<Rightarrow> nat \<Rightarrow> byte list \<Rightarrow> nat \<times> byte list" where
  "a2b_loop quad_pos leftchar leftbits [] = (leftbits, [])"
| "a2b_loop quad_pos leftchar leftbits (c # s) =
     (if unat c > 127 \<or> c = 13 \<or> c = 10 \<or> c = 32 then a2b_loop quad_pos leftchar leftbits s
      else if c = PAD then
        (if quad_pos < 2 \<or> (quad_pos = 2 \<and> find_valid (c # s) 1 \<noteq> Some PAD)
         then a2b_loop quad_pos leftchar leftbits s
         else (0, []))
      else
        (case table_a2b c of
           None \<Rightarrow> a2b_loop quad_pos leftchar leftbits s
         | Some v \<Rightarrow>
             (let q = (quad_pos + 1) mod 4;
                  lc = leftchar * 64 + v;
                  lb = leftbits + 6
              in if lb \<ge> 8
                 then (case a2b_loop q (lc mod 2 ^ (lb - 8)) (lb - 8) s of
                         (fin, out) \<Rightarrow> (fin, of_nat ((lc div 2 ^ (lb - 8)) mod 256) # out))
                 else a2b_loop q lc lb s)))"

definition decodestring :: "byte list \<Rightarrow> exn + byte list" where
  "decodestring s =
     (case a2b_loop 0 0 0 s of
        (leftbits, out) \<Rightarrow>
          if leftbits \<noteq> 0 then Inl (BinasciiError ''Incorrect padding'') else Inr out)"

section \<open>The file system\<close>

text \<open>
  A file system maps path strings to nodes; permission bits and flags are kept beside
  them. The environment decides which system calls fail: \<open>fault s op p\<close> is the
  \<open>errno\<close> with which \<open>op\<close> on \<open>p\<close> is refused. \<open>rand\<close> is the sequence of numbers that
  the random generator of \<open>tempfile\<close> yields, \<open>opened\<close> the files that hold an open handle.
  Directories on the way to a file are not symbolic links.
\<close>

datatype node = File "byte list" | Dir | Symlink string

datatype sysop =
    SysStat | SysReadlink | SysMkdir | SysOpen | SysRead | SysFlush | SysFsync | SysClose
  | SysChmod | SysChflags | SysRemove | SysRename | SysRmtree

record fsys =
  nodes :: "string \<Rightarrow> node option"
  attrs :: "string \<Rightarrow> nat \<times> nat"
  fault :: "sysop \<Rightarrow> string \<Rightarrow> nat option"
  rand :: "nat list"
  opened :: "string list"
  create_mode :: nat
  os_nt :: bool
  has_chflags :: bool

type_synonym 'a io = "fsys \<Rightarrow> (exn + 'a) \<times> fsys"

definition returnE :: "'a \<Rightarrow> 'a io" where
  "returnE x s = (Inr x, s)"

definition raiseE :: "exn \<Rightarrow> 'a io" where
  "raiseE e s = (Inl e, s)"

definition bindE :: "'a io \<Rightarrow> ('a \<Rightarrow> 'b io) \<Rightarrow> 'b io" where
  "bindE m f s = (case m s of (Inl e, s') \<Rightarrow> (Inl e, s') | (Inr x, s') \<Rightarrow> f x s')"

definition syscall :: "sysop \<Rightarrow> string \<Rightarrow> unit io" where
  "syscall op p s =
     (case fault s op p of
        Some n \<Rightarrow> (Inl (OSError n (Some p)), s)
      | None \<Rightarrow> (Inr (), s))"

text \<open>Following the symbolic link at the end of a path, at most 40 times.\<close>

fun follow :: "nat \<Rightarrow> (string \<Rightarrow> node option) \<Rightarrow> string \<Rightarrow> string option" where
  "follow 0 ns p = (case ns p of Some (Symlink t) \<Rightarrow> None | _ \<Rightarrow> Some p)"
| "follow (Suc k) ns p =
     (case ns p of
        Some (Symlink t) \<Rightarrow> follow k ns (path_join (dirname p) [t])
      | _ \<Rightarrow> Some p)"

definition os_stat :: "string \<Rightarrow> (string \<times> node) io" where
  "os_stat p =
     bindE (syscall SysStat p) (\<lambda>_ s.
       case follow 40 (nodes s) p of
         None \<Rightarrow> (Inl (OSError ELOOP (Some p)), s)
       | Some q \<Rightarrow>
           (case nodes s q of
              None \<Rightarrow> (Inl (OSError ENOENT (Some p)), s)
            | Some n \<Rightarrow> (Inr (q, n), s)))"

definition isfile :: "string \<Rightarrow> fsys \<Rightarrow> bool" where
  "isfile p s = (case os_stat p s of (Inr (q, File bs), s') \<Rightarrow> True | _ \<Rightarrow> False)"

definition path_exists :: "string \<Rightarrow> fsys \<Rightarrow> bool" where
  "path_exists p s = (case os_stat p s of (Inr r, s') \<Rightarrow> True | _ \<Rightarrow> False)"

definition islink :: "string \<Rightarrow> fsys \<Rightarrow> bool" where
  "islink p s =
     (case fault s SysStat p of
        Some n \<Rightarrow> False
      | None \<Rightarrow> (case nodes s p of Some (Symlink t) \<Rightarrow> True | _ \<Rightarrow> False))"

definition readlink :: "string \<Rightarrow> string io" where
  "readlink p =
     bindE (syscall SysReadlink p) (\<lambda>_ s.
       case nodes s p of
         Some (Symlink t) \<Rightarrow> (Inr t, s)
       | Some _ \<Rightarrow> (Inl (OSError 22 (Some p)), s)
       | None \<Rightarrow> (Inl (OSError ENOENT (Some p)), s))"

definition parent_is_dir :: "fsys \<Rightarrow> string \<Rightarrow> bool" where
  "parent_is_dir s p = (dirname p = [] \<or> nodes s (dirname p) = Some Dir)"

definition os_mkdir :: "string \<Rightarrow> unit io" where
  "os_mkdir p =
     bindE (syscall SysMkdir p) (\<lambda>_ s.
       if nodes s p \<noteq> None then (Inl (OSError EEXIST (Some p)), s)
       else if \<not> parent_is_dir s p then (Inl (OSError ENOENT (Some p)), s)
       else (Inr (), s\<lparr>nodes := (nodes s)(p \<mapsto> Dir)\<rparr>))"

definition os_chmod :: "string \<Rightarrow> nat \<Rightarrow> unit io" where
  "os_chmod p m =
     bindE (syscall SysChmod p) (\<lambda>_. bindE (os_stat p) (\<lambda>(q, n) s.
       (Inr (), s\<lparr>attrs := (attrs s)(q := (m, snd (attrs s q)))\<rparr>)))"

definition os_chflags :: "string \<Rightarrow> nat \<Rightarrow> unit io" where
  "os_chflags p fl =
     bindE (syscall SysChflags p) (\<lambda>_. bindE (os_stat p) (\<lambda>(q, n) s.
       (Inr (), s\<lparr>attrs := (attrs s)(q := (fst (attrs s q), fl))\<rparr>)))"

definition os_remove :: "string \<Rightarrow> unit io" where
  "os_remove p =
     bindE (syscall SysRemove p) (\<lambda>_ s.
       case nodes s p of
         None \<Rightarrow> (Inl (OSError ENOENT (Some p)), s)
       | Some Dir \<Rightarrow> (Inl (OSError EACCES (Some p)), s)
       | Some _ \<Rightarrow> (Inr (), s\<lparr>nodes := (nodes s)(p := None)\<rparr>))"

text \<open>
  \<open>os.rename\<close> of a file: the destination is replaced, except on Windows, where an
  existing destination is an error, and except a directory.
\<close>

definition os_rename :: "string \<Rightarrow> string \<Rightarrow> unit io" where
  "os_rename src dst =
     bindE (syscall SysRename src) (\<lambda>_ s.
       case nodes s src of
         None \<Rightarrow> (Inl (OSError ENOENT (Some src)), s)
       | Some n \<Rightarrow>
           if \<not> parent_is_dir s dst then (Inl (OSError ENOENT (Some src)), s)
           else if nodes s dst = Some Dir then (Inl (OSError EISDIR (Some src)), s)
           else if os_nt s \<and> nodes s dst \<noteq> None then (Inl (OSError EEXIST (Some src)), s)
           else (Inr (), s\<lparr>nodes := (nodes s)(dst \<mapsto> n, src := None),
                           attrs := (attrs s)(dst := attrs s src)\<rparr>))"

text \<open>\<open>shutil.rmtree\<close>: the directory and everything below it.\<close>

definition rmtree :: "string \<Rightarrow> unit io" where
  "rmtree d =
     bindE (syscall SysRmtree d) (\<lambda>_ s.
       case nodes s d of
         None \<Rightarrow> (Inl (OSError ENOENT (Some d)), s)
       | Some Dir \<Rightarrow>
           (Inr (), s\<lparr>nodes := (\<lambda>p. if p = d \<or> startswith p (d @ ''/'') then None
                                      else nodes s p)\<rparr>)
       | Some _ \<Rightarrow> (Inl (OSError ENOTDIR (Some d)), s))"

text \<open>
  \<open>tempfile.mkdtemp(prefix, dir)\<close>: a candidate name is six characters chosen at random
  from \<open>characters\<close>; an existing name is skipped, and at most \<open>TMP_MAX\<close> names are tried.
  A random sequence that runs dry counts as a sequence without a usable name.
\<close>

definition TMP_MAX :: nat where "TMP_MAX = 10000"

definition characters :: string where
  "characters = ''abcdefghijklmnopqrstuvwxyz0123456789_''"

definition candidate_name :: "nat list \<Rightarrow> string" where
  "candidate_name draws = map (\<lambda>k. characters ! (k mod 37)) draws"

fun mkdtemp_loop :: "nat \<Rightarrow> string \<Rightarrow> string \<Rightarrow> string io" where
  "mkdtemp_loop k prefix dir s =
     (if k = 0 \<or> length (rand s) < 6
      then (Inl (OSError EEXIST (Some ''No usable temporary directory name found'')), s)
      else
        (let name = candidate_name (take 6 (rand s));
             file = path_join dir [prefix @ name] in
         case os_mkdir file (s\<lparr>rand := drop 6 (rand s)\<rparr>) of
           (Inl (OSError n f), s') \<Rightarrow>
             if n = EEXIST then mkdtemp_loop (k - 1) prefix dir s'
             else (Inl (OSError n f), s')
         | (Inl e, s') \<Rightarrow> (Inl e, s')
         | (Inr u, s') \<Rightarrow> (Inr file, s')))"

declare mkdtemp_loop.simps [simp del]

definition mkdtemp :: "string \<Rightarrow> string \<Rightarrow> string io" where
  "mkdtemp prefix dir = mkdtemp_loop TMP_MAX prefix dir"

section \<open>File objects\<close>

text \<open>
  A file object knows the file it was opened on and its mode. \<open>fo_data\<close> is what a reader
  gets, \<open>fo_read_err\<close> the error of the environment for reading it, and \<open>fo_buf\<close> the
  bytes written and not yet flushed. The body of a \<open>with\<close> block works on the file
  object: it returns a value or raises, and it yields the bytes it has written to the file.
\<close>

datatype open_mode = ModeR | ModeRB | ModeW | ModeWB

record fileobj =
  fo_name :: string
  fo_mode :: open_mode
  fo_data :: "byte list"
  fo_read_err :: "nat option"
  fo_buf :: "byte list"

type_synonym 'a body = "fileobj \<Rightarrow> (exn + 'a) \<times> byte list"

definition fo_written :: "fileobj \<Rightarrow> byte list \<Rightarrow> fileobj" where
  "fo_written f bs = f\<lparr>fo_buf := fo_buf f @ bs\<rparr>"

definition io_open :: "string \<Rightarrow> open_mode \<Rightarrow> fileobj io" where
  "io_open p mode =
     bindE (syscall SysOpen p) (\<lambda>_ s.
       case follow 40 (nodes s) p of
         None \<Rightarrow> (Inl (OSError ELOOP (Some p)), s)
       | Some q \<Rightarrow>
           if mode = ModeR \<or> mode = ModeRB then
             (case nodes s q of
                None \<Rightarrow> (Inl (OSError ENOENT (Some p)), s)
              | Some Dir \<Rightarrow> (Inl (OSError EISDIR (Some p)), s)
              | Some (Symlink t) \<Rightarrow> (Inl (OSError ELOOP (Some p)), s)
              | Some (File bs) \<Rightarrow>
                  (Inr \<lparr>fo_name = q, fo_mode = mode, fo_data = bs,
                        fo_read_err = fault s SysRead q, fo_buf = []\<rparr>,
                   s\<lparr>opened := q # opened s\<rparr>))
           else
             (case nodes s q of
                Some Dir \<Rightarrow> (Inl (OSError EISDIR (Some p)), s)
              | Some (Symlink t) \<Rightarrow> (Inl (OSError ELOOP (Some p)), s)
              | Some (File bs) \<Rightarrow>
                  (Inr \<lparr>fo_name = q, fo_mode = mode, fo_data = [],
                        fo_read_err = fault s SysRead q, fo_buf = []\<rparr>,
                   s\<lparr>nodes := (nodes s)(q \<mapsto> File []), opened := q # opened s\<rparr>)
              | None \<Rightarrow>
                  if \<not> parent_is_dir s q then (Inl (OSError ENOENT (Some p)), s)
                  else
                    (Inr \<lparr>fo_name = q, fo_mode = mode, fo_data = [],
                          fo_read_err = fault s SysRead q, fo_buf = []\<rparr>,
                     s\<lparr>nodes := (nodes s)(q \<mapsto> File []),
                       attrs := (attrs s)(q := (create_mode s, 0)),
                       opened := q # opened s\<rparr>)))"

text \<open>\<open>f.read()\<close> of a binary file and \<open>f.write(b)\<close> to one.\<close>

definition fo_read :: "(byte list) body" where
  "fo_read f =
     (case fo_read_err f of
        Some n \<Rightarrow> (Inl (OSError n (Some (fo_name f))), [])
      | None \<Rightarrow> (Inr (fo_data f), []))"

definition fo_write :: "byte list \<Rightarrow> unit body" where
  "fo_write bs f = (Inr (), bs)"

text \<open>\<open>f.flush()\<close> appends the buffer to the file; \<open>f.close()\<close> flushes and gives the handle up,
  also when the flush fails.\<close>

definition fo_flush :: "fileobj \<Rightarrow> fileobj io" where
  "fo_flush f =
     bindE (syscall SysFlush (fo_name f)) (\<lambda>_ s.
       (Inr (f\<lparr>fo_buf := []\<rparr>),
        (case nodes s (fo_name f) of
           Some (File bs) \<Rightarrow> s\<lparr>nodes := (nodes s)(fo_name f \<mapsto> File (bs @ fo_buf f))\<rparr>
         | _ \<Rightarrow> s)))"

definition os_fsync :: "fileobj \<Rightarrow> unit io" where
  "os_fsync f = syscall SysFsync (fo_name f)"

definition fo_close :: "fileobj \<Rightarrow> unit io" where
  "fo_close f s =
     (case fo_flush f s of
        (Inl e, s') \<Rightarrow> (Inl e, s'\<lparr>opened := remove1 (fo_name f) (opened s')\<rparr>)
      | (Inr f', s') \<Rightarrow>
          (case syscall SysClose (fo_name f) s' of
             (r, s'') \<Rightarrow> (r, s''\<lparr>opened := remove1 (fo_name f) (opened s'')\<rparr>)))"

text \<open>\<open>with io.open(p, mode) as f: body\<close>: the file is closed however the body ends.\<close>

definition with_io_open :: "string \<Rightarrow> open_mode \<Rightarrow> 'a body \<Rightarrow> 'a io" where
  "with_io_open p mode body =
     bindE (io_open p mode) (\<lambda>f s.
       case body f of
         (r, written) \<Rightarrow>
           (case fo_close (fo_written f written) s of
              (Inl e, s') \<Rightarrow> (Inl e, s')
            | (Inr u, s') \<Rightarrow> (r, s')))"

section \<open>Atomic writing\<close>

text \<open>\<open>_copy_metadata(src, dst)\<close>: permission bits, and flags where the platform has them.\<close>

definition copy_metadata :: "string \<Rightarrow> string \<Rightarrow> unit io" where
  "copy_metadata src dst =
     bindE (os_stat src) (\<lambda>(q, n) s0.
       bindE (os_chmod dst (fst (attrs s0 q))) (\<lambda>_.
         bindE (os_stat src) (\<lambda>(q', n') s1.
           if has_chflags s1 then os_chflags dst (snd (attrs s1 q')) s1
           else (Inr (), s1))) s0)"

text \<open>\<open>try: m except OSError: pass\<close>.\<close>

definition ignore_OSError :: "unit io \<Rightarrow> unit io" where
  "ignore_OSError m s =
     (case m s of
        (Inl (OSError n f), s') \<Rightarrow> (Inr (), s')
      | r \<Rightarrow> r)"

text \<open>
  \<open>atomic_writing\<close>, lines 68 to 77: the destination behind a symbolic link, the staging
  directory beside it, and the temporary file opened in it. The result is the
  destination, the staging directory, the temporary path and the file object.
\<close>

definition aw_stage :: "string \<Rightarrow> bool \<Rightarrow> (string \<times> string \<times> string \<times> fileobj) io" where
  "aw_stage path0 text =
     bindE (\<lambda>s. if islink path0 s
                then bindE (readlink path0) (\<lambda>t. returnE (path_join (dirname path0) [t])) s
                else (Inr path0, s)) (\<lambda>path.
       case path_split path of
         (dirname', basename') \<Rightarrow>
           bindE (mkdtemp basename' dirname') (\<lambda>tmp_dir.
             let tmp_path = path_join tmp_dir [basename'] in
             bindE (io_open tmp_path (if text then ModeW else ModeWB)) (\<lambda>fileobj.
               returnE (path, tmp_dir, tmp_path, fileobj))))"

text \<open>Lines 81 to 84: the handler of the bare \<open>except\<close>, ending in \<open>raise\<close>.\<close>

definition aw_rollback :: "exn \<Rightarrow> string \<Rightarrow> fileobj \<Rightarrow> 'a io" where
  "aw_rollback e tmp_dir fileobj =
     bindE (fo_close fileobj) (\<lambda>_.
       bindE (rmtree tmp_dir) (\<lambda>_.
         raiseE e))"

text \<open>Lines 86 to 105: flush, sync, close, copy the metadata, rename, remove the staging.\<close>

definition aw_commit :: "string \<Rightarrow> string \<Rightarrow> string \<Rightarrow> fileobj \<Rightarrow> unit io" where
  "aw_commit path tmp_dir tmp_path fileobj =
     bindE (fo_flush fileobj) (\<lambda>fileobj'.
       bindE (os_fsync fileobj') (\<lambda>_.
         bindE (fo_close fileobj') (\<lambda>_.
           bindE (ignore_OSError (copy_metadata path tmp_path)) (\<lambda>_.
             bindE (\<lambda>s. if os_nt s \<and> path_exists path s then os_remove path s
                        else (Inr (), s)) (\<lambda>_.
               bindE (os_rename tmp_path path) (\<lambda>_.
                 rmtree tmp_dir))))))"

text \<open>The context manager around a body: what \<open>with atomic_writing(path, text) as f: body\<close> does.\<close>

definition atomic_writing :: "string \<Rightarrow> bool \<Rightarrow> 'a body \<Rightarrow> 'a io" where
  "atomic_writing path0 text body =
     bindE (aw_stage path0 text) (\<lambda>(path, tmp_dir, tmp_path, fileobj).
       case body fileobj of
         (Inl e, written) \<Rightarrow> aw_rollback e tmp_dir (fo_written fileobj written)
       | (Inr x, written) \<Rightarrow>
           bindE (aw_commit path tmp_dir tmp_path (fo_written fileobj written))
             (\<lambda>_. returnE x))"

section \<open>Paths of the API and paths of the file system\<close>

text \<open>
  Modelled from the spec: \<open>to_os_path\<close> and \<open>to_api_path\<close> of \<open>IPython.html.utils\<close>, which
  \<open>fileio.py\<close> imports. \<open>to_os_path\<close> converts the virtual path to a native-separator path
  relative to root: it strips the slashes around the path, drops the empty parts and joins
  the rest onto root. \<open>to_api_path\<close> inverts it against root: it removes the root prefix,
  strips the separators, drops the empty parts and joins the rest with slashes.
\<close>

definition to_os_path :: "string \<Rightarrow> string \<Rightarrow> string" where
  "to_os_path path root =
     (let parts = filter (\<lambda>p. p \<noteq> []) (split_on CHR ''/'' (strip CHR ''/'' path))
      in path_join root parts)"

definition to_api_path :: "string \<Rightarrow> string \<Rightarrow> string" where
  "to_api_path os_path root =
     (let os_path' = (if startswith os_path root then drop (length root) os_path else os_path);
          parts = filter (\<lambda>p. p \<noteq> []) (split_on CHR ''/'' (strip CHR ''/'' os_path'))
      in str_join ''/'' parts)"

section \<open>FileManagerMixin\<close>

text \<open>
  The attribute \<open>root_dir\<close> of the class using the mixin is the first parameter of each
  method. \<open>perm_to_403\<close> wraps the computation of its \<open>with\<close> block.
\<close>

definition perm_to_403 :: "string \<Rightarrow> string \<Rightarrow> 'a io \<Rightarrow> 'a io" where
  "perm_to_403 root_dir os_path m s =
     (case m s of
        (Inl (OSError n filename), s') \<Rightarrow>
          if n \<in> {EPERM, EACCES} then
            (let os_path' =
                   (if os_path = []
                    then (case filename of
                            None \<Rightarrow> ''unknown file''
                          | Some f \<Rightarrow> if f = [] then ''unknown file'' else f)
                    else os_path);
                 path = to_api_path os_path' root_dir
             in (Inl (HTTPError 403 (''Permission denied: '' @ path) None), s'))
          else (Inl (OSError n filename), s')
      | r \<Rightarrow> r)"

definition open_mixin :: "string \<Rightarrow> string \<Rightarrow> open_mode \<Rightarrow> 'a body \<Rightarrow> 'a io" where
  "open_mixin root_dir os_path mode body =
     perm_to_403 root_dir os_path (with_io_open os_path mode body)"

definition atomic_writing_mixin :: "string \<Rightarrow> string \<Rightarrow> bool \<Rightarrow> 'a body \<Rightarrow> 'a io" where
  "atomic_writing_mixin root_dir os_path text body =
     perm_to_403 root_dir os_path (atomic_writing os_path text body)"

text \<open>\<open>_get_os_path\<close>; \<open>cwd\<close> is the working directory that \<open>os.path.abspath\<close> reads.\<close>

definition get_os_path :: "string \<Rightarrow> string \<Rightarrow> string \<Rightarrow> exn + string" where
  "get_os_path cwd root_dir path =
     (let root = abspath cwd root_dir;
          os_path = to_os_path path root
      in if \<not> startswith (abspath cwd os_path @ ''/'') root
         then Inl (HTTPError 404 (path @ '' is outside root contents directory'') None)
         else Inr os_path)"

text \<open>
  \<open>_read_notebook\<close> and \<open>_save_notebook\<close>; the reader and the writer of \<open>nbformat\<close> are
  parameters, working on the open file.
\<close>

definition read_notebook :: "'nb body \<Rightarrow> string \<Rightarrow> string \<Rightarrow> 'nb io" where
  "read_notebook nbformat_read root_dir os_path =
     open_mixin root_dir os_path ModeR (\<lambda>f.
       case nbformat_read f of
         (Inl e, written) \<Rightarrow>
           (Inl (HTTPError 400 (''Unreadable Notebook: '' @ os_path @ '' '' @ str_exn e) None),
            written)
       | (Inr nb, written) \<Rightarrow> (Inr nb, written))"

definition save_notebook :: "unit body \<Rightarrow> string \<Rightarrow> string \<Rightarrow> unit io" where
  "save_notebook nbformat_write root_dir os_path =
     atomic_writing_mixin root_dir os_path True nbformat_write"

text \<open>\<open>_read_file\<close>; the format is \<open>None\<close> or a string.\<close>

definition read_file :: "string \<Rightarrow> string \<Rightarrow> string option \<Rightarrow> (ustr \<times> string) io" where
  "read_file root_dir os_path format s =
     (if \<not> isfile os_path s
      then (Inl (HTTPError 400 (''Cannot read non-file '' @ os_path) None), s)
      else
        bindE (open_mixin root_dir os_path ModeRB fo_read) (\<lambda>bcontent.
          let as_base64 =
                (case decode_ascii (encodestring bcontent) of
                   Inl e \<Rightarrow> raiseE e
                 | Inr t \<Rightarrow> returnE (t, ''base64''))
          in if format = None \<or> format = Some ''text'' then
               (case decode_utf8 bcontent of
                  Inr t \<Rightarrow> returnE (t, ''text'')
                | Inl (UnicodeError m) \<Rightarrow>
                    if format = Some ''text''
                    then raiseE (HTTPError 400 (os_path @ '' is not UTF-8 encoded'')
                                   (Some ''bad format''))
                    else as_base64
                | Inl e \<Rightarrow> raiseE e)
             else as_base64) s)"

text \<open>\<open>_save_file\<close>. The message of the first error names the two formats in quotes.\<close>

definition bad_format_message :: string where
  "bad_format_message =
     ''Must specify format of file contents as '' @ [CHR 0x27] @ ''text'' @ [CHR 0x27]
     @ '' or '' @ [CHR 0x27] @ ''base64'' @ [CHR 0x27]"

definition save_file :: "string \<Rightarrow> string \<Rightarrow> ustr \<Rightarrow> string option \<Rightarrow> unit io" where
  "save_file root_dir os_path content format =
     (if format \<notin> {Some ''text'', Some ''base64''}
      then raiseE (HTTPError 400 bad_format_message None)
      else
        (case (if format = Some ''text'' then encode_utf8 content
               else (case encode_ascii content of
                       Inl e \<Rightarrow> Inl e
                     | Inr b64_bytes \<Rightarrow> decodestring b64_bytes)) of
           Inl e \<Rightarrow>
             raiseE (HTTPError 400
               (''Encoding error saving '' @ os_path @ '': '' @ str_exn e) None)
         | Inr bcontent \<Rightarrow>
             atomic_writing_mixin root_dir os_path False (fo_write bcontent)))"

section \<open>A small file system\<close>

text \<open>
  The root directory \<open>/srv\<close> with a text file, a file that is not UTF-8, and a symbolic
  link; no system call is refused. \<open>fs_denied\<close> is the same file system with every
  \<open>open\<close> refused for lack of permission, and \<open>fs_stuck\<close> the one on which removing a
  directory tree fails with an input/output error.
\<close>

definition fs_example :: fsys where
  "fs_example =
     \<lparr>nodes = [''/'' \<mapsto> Dir, ''/srv'' \<mapsto> Dir, ''/srv/a.txt'' \<mapsto> File [104, 105],
               ''/srv/bad.bin'' \<mapsto> File [255, 254], ''/srv/link'' \<mapsto> Symlink ''a.txt''],
      attrs = (\<lambda>p. (420, 0)),
      fault = (\<lambda>op p. None),
      rand = [0, 1, 2, 26, 27, 36, 40, 41, 42, 43, 44, 45],
      opened = [],
      create_mode = 384,
      os_nt = False,
      has_chflags = False\<rparr>"

definition fs_denied :: fsys where
  "fs_denied = fs_example\<lparr>fault := (\<lambda>op p. if op = SysOpen then Some EACCES else None)\<rparr>"

definition fs_stuck :: fsys where
  "fs_stuck = fs_example\<lparr>fault := (\<lambda>op p. if op = SysRmtree then Some 5 else None)\<rparr>"

text \<open>Two bodies: one writes two bytes and returns, one writes a byte and raises.\<close>

definition body_ok :: "unit body" where
  "body_ok f = fo_write [111, 107] f"

definition body_raises :: "unit body" where
  "body_raises f = (Inl (OtherError ''boom''), [120])"

section \<open>The output of the base64 encoder\<close>

lemma unat_table_b2a: "unat (table_b2a k) < 128"
  by (auto simp: table_b2a_def unat_of_nat)

lemma table_b2a_not_LF: "table_b2a k \<noteq> LF"
proof
  assume "table_b2a k = LF"
  then have "unat (table_b2a k) = unat LF" by simp
  then show False
    by (simp add: table_b2a_def LF_def unat_of_nat split: if_splits)
qed

lemma b2a_groups_ascii: "\<forall>b \<in> set (b2a_groups s). unat b < 128"
  by (induction s rule: b2a_groups.induct) (simp_all add: unat_table_b2a PAD_def)

lemma b2a_groups_no_LF: "LF \<notin> set (b2a_groups s)"
  by (induction s rule: b2a_groups.induct)
     (auto simp: PAD_def LF_def table_b2a_not_LF [unfolded LF_def])

lemma length_b2a_groups: "length (b2a_groups s) = 4 * ((length s + 2) div 3)"
proof (induction s rule: b2a_groups.induct)
  case (4 a b c r)
  have "(5 + length r) div 3 = Suc ((Suc (Suc (length r))) div 3)" by arith
  with 4 show ?case by simp
qed simp_all

lemma encodestring_ascii: "\<forall>b \<in> set (encodestring s). unat b < 128"
proof (induction s rule: encodestring.induct)
  case (1 s)
  show ?case
  proof (cases "s = []")
    case True
    then show ?thesis by (simp add: encodestring.simps)
  next
    case False
    with 1 have "\<forall>b \<in> set (encodestring (drop (Suc 56) s)). unat b < 128" by simp
    with False show ?thesis
      by (subst encodestring.simps) (auto simp: b2a_base64_def b2a_groups_ascii LF_def)
  qed
qed

lemma decode_ascii_encodestring:
  "decode_ascii (encodestring s) = Inr (map unat (encodestring s))"
  using encodestring_ascii [of s] by (simp add: decode_ascii_def)

lemma encodestring_last: "s \<noteq> [] \<Longrightarrow> last (encodestring s) = LF"
proof (induction s rule: encodestring.induct)
  case (1 s)
  show ?case
  proof (cases "drop (Suc 56) s = []")
    case True
    with 1 show ?thesis
      by (subst encodestring.simps) (simp add: b2a_base64_def encodestring.simps [of "[]"])
  next
    case False
    with 1 have "last (encodestring (drop (Suc 56) s)) = LF" by simp
    moreover have "encodestring (drop (Suc 56) s) \<noteq> []"
      using False by (subst encodestring.simps) (simp add: b2a_base64_def)
    ultimately show ?thesis
      using 1(2) by (subst encodestring.simps) simp
  qed
qed


lemma encodestring_Nil: "encodestring [] = []"
  by (simp add: encodestring.simps)

lemma encodestring_line:
  "s \<noteq> [] \<Longrightarrow>
   encodestring s = b2a_groups (take 57 s) @ LF # encodestring (drop 57 s)"
  by (subst encodestring.simps) (simp add: b2a_base64_def)

lemma encodestring_newlines:
  "i < length (encodestring s) \<Longrightarrow>
   (encodestring s ! i = LF) = (i mod 77 = 76 \<or> Suc i = length (encodestring s))"
proof (induction s arbitrary: i rule: encodestring.induct)
  case (1 s)
  from 1(2) have ne: "s \<noteq> []" by (auto simp: encodestring_Nil)
  define g where "g = b2a_groups (take 57 s)"
  define r where "r = encodestring (drop 57 s)"
  have e: "encodestring s = g @ LF # r"
    using ne by (simp add: encodestring_line g_def r_def)
  have lg: "length g = 4 * ((min (length s) 57 + 2) div 3)"
    by (simp add: g_def length_b2a_groups)
  have nolf: "\<And>j. j < length g \<Longrightarrow> g ! j \<noteq> LF"
    using b2a_groups_no_LF [of "take 57 s"] by (metis g_def nth_mem)
  show ?case
  proof (cases "length s \<le> 57")
    case True
    then have r: "r = []" by (simp add: r_def encodestring_Nil)
    from True lg have "length g \<le> 76" by simp
    with 1(2) e r nolf show ?thesis
      by (cases "i < length g") (auto simp: nth_append)
  next
    case False
    with lg have l76: "length g = 76" by simp
    from False have dne: "drop (Suc 56) s \<noteq> []" by simp
    show ?thesis
    proof (cases "i < 77")
      case True
      with e l76 nolf show ?thesis
        by (cases "i < 76") (auto simp: nth_append)
    next
      case False
      then have i: "i = (i - 77) + 77" by simp
      from 1(2) e l76 False have lt: "i - 77 < length r" by simp
      have IH: "(r ! (i - 77) = LF) = ((i - 77) mod 77 = 76 \<or> Suc (i - 77) = length r)"
        using 1(1) [OF ne, of "i - 77"] lt by (simp add: r_def)
      have "encodestring s ! i = r ! (i - 77)"
        using e l76 False by (simp add: nth_append nth_Cons')
      moreover have "(i - 77) mod 77 = i mod 77"
        using False by (metis i mod_add_self2)
      moreover have "(Suc (i - 77) = length r) = (Suc i = length (encodestring s))"
        using e l76 False by auto
      ultimately show ?thesis using IH by simp
    qed
  qed
qed

lemma encodestring_255_254: "encodestring [255, 254] = [47, 47, 52, 61, 10]"
  by (simp add: encodestring.simps b2a_base64_def table_b2a_def PAD_def LF_def)

section \<open>Reading a regular file\<close>

lemma follow_not_link:
  "(\<And>t. ns p \<noteq> Some (Symlink t)) \<Longrightarrow> follow k ns p = Some p"
  by (cases k) (auto split: option.splits node.splits)

lemma isfile_regular:
  assumes "nodes s p = Some (File bs)" and "fault s SysStat p = None"
  shows "isfile p s"
  using assms
  by (simp add: isfile_def os_stat_def bindE_def syscall_def follow_not_link)

lemma open_read_regular:
  assumes "nodes s p = Some (File bs)"
    and "fault s SysOpen p = None" and "fault s SysRead p = None"
    and "fault s SysFlush p = None" and "fault s SysClose p = None"
  shows "open_mixin root_dir p ModeRB fo_read s = (Inr bs, s)"
proof -
  have "(nodes s)(p \<mapsto> File bs) = nodes s"
    using assms(1) by (simp add: fun_upd_idem)
  with assms show ?thesis
  by (simp add: open_mixin_def perm_to_403_def with_io_open_def io_open_def bindE_def
        syscall_def follow_not_link fo_read_def fo_close_def fo_flush_def fo_written_def)
qed

lemma read_file_after_open:
  assumes "isfile os_path s"
    and "open_mixin root_dir os_path ModeRB fo_read s = (Inr bcontent, s')"
  shows "read_file root_dir os_path format s =
           (if format = None \<or> format = Some ''text'' then
              (case utf8_decode_loop 0 0 0x80 0xBF bcontent of
                 Some t \<Rightarrow> (Inr (t, ''text''), s')
               | None \<Rightarrow>
                   if format = Some ''text''
                   then (Inl (HTTPError 400 (os_path @ '' is not UTF-8 encoded'')
                                (Some ''bad format'')), s')
                   else (Inr (map unat (encodestring bcontent), ''base64''), s'))
            else (Inr (map unat (encodestring bcontent), ''base64''), s'))"
  using assms
  by (auto simp: read_file_def bindE_def decode_utf8_def decode_ascii_encodestring
        returnE_def raiseE_def Let_def split: option.splits)

lemma read_file_returns:
  assumes "read_file root_dir os_path format s = (Inr r, s')"
  shows "isfile os_path s \<and>
         (\<exists>bcontent. open_mixin root_dir os_path ModeRB fo_read s = (Inr bcontent, s'))"
proof -
  from assms have f: "isfile os_path s"
    by (auto simp: read_file_def split: if_splits)
  obtain x s1 where o: "open_mixin root_dir os_path ModeRB fo_read s = (x, s1)"
    by (cases "open_mixin root_dir os_path ModeRB fo_read s")
  show ?thesis
  proof (cases x)
    case (Inl e)
    with assms f o show ?thesis by (simp add: read_file_def bindE_def)
  next
    case (Inr b)
    with o have o': "open_mixin root_dir os_path ModeRB fo_read s = (Inr b, s1)" by simp
    from assms read_file_after_open [OF f o', of format] have "s1 = s'"
      by (auto split: if_splits option.splits)
    with f o' show ?thesis by auto
  qed
qed

section \<open>Where the errors are raised\<close>

lemma get_os_path_error:
  "get_os_path cwd root_dir path = Inl e \<Longrightarrow>
   e = HTTPError 404 (path @ '' is outside root contents directory'') None"
  by (auto simp: get_os_path_def Let_def split: if_splits)

lemma perm_to_403_permission:
  assumes "m s = (Inl (OSError n filename), s')" and "n = EPERM \<or> n = EACCES"
  shows "\<exists>msg. perm_to_403 root_dir os_path m s = (Inl (HTTPError 403 msg None), s')"
  using assms by (auto simp: perm_to_403_def Let_def)

lemma read_file_not_file:
  "\<not> isfile os_path s \<Longrightarrow>
   read_file root_dir os_path format s =
     (Inl (HTTPError 400 (''Cannot read non-file '' @ os_path) None), s)"
  by (simp add: read_file_def)

lemma read_notebook_unreadable:
  assumes "io_open os_path ModeR s = (Inr f, s1)"
    and "nbformat_read f = (Inl e, written)"
    and "fo_close (fo_written f written) s1 = (Inr (), s2)"
  shows "read_notebook nbformat_read root_dir os_path s =
           (Inl (HTTPError 400 (''Unreadable Notebook: '' @ os_path @ '' '' @ str_exn e) None), s2)"
  using assms
  by (simp add: read_notebook_def open_mixin_def perm_to_403_def with_io_open_def bindE_def)

lemma save_file_encoding_error:
  assumes "format = Some ''text'' \<and> encode_utf8 content = Inl e
         \<or> format = Some ''base64'' \<and> encode_ascii content = Inl e
         \<or> format = Some ''base64'' \<and> (\<exists>b. encode_ascii content = Inr b \<and> decodestring b = Inl e)"
  shows "save_file root_dir os_path content format s =
           (Inl (HTTPError 400 (''Encoding error saving '' @ os_path @ '': '' @ str_exn e) None), s)"
  using assms by (auto simp: save_file_def raiseE_def)


lemma io_open_read_regular:
  assumes "nodes s p = Some (File bs)" and "fault s SysOpen p = None"
    and "mode = ModeR \<or> mode = ModeRB"
  shows "io_open p mode s =
           (Inr \<lparr>fo_name = p, fo_mode = mode, fo_data = bs,
                 fo_read_err = fault s SysRead p, fo_buf = []\<rparr>,
            s\<lparr>opened := p # opened s\<rparr>)"
  using assms by (auto simp: io_open_def bindE_def syscall_def follow_not_link)

lemma fo_close_clean:
  assumes "nodes s (fo_name f) = Some (File bs)" and "fo_buf f = []"
    and "fault s SysFlush (fo_name f) = None" and "fault s SysClose (fo_name f) = None"
  shows "fo_close f s = (Inr (), s\<lparr>opened := remove1 (fo_name f) (opened s)\<rparr>)"
proof -
  have "(nodes s)(fo_name f \<mapsto> File bs) = nodes s"
    using assms(1) by (simp add: fun_upd_idem)
  with assms show ?thesis
    by (simp add: fo_close_def fo_flush_def bindE_def syscall_def)
qed

section \<open>Rejected writes leave the file system alone\<close>

text \<open>
  C6. A call of \<open>_save_file\<close> with a format that is neither \<open>text\<close> nor \<open>base64\<close> fails
  with the 400 error of a bad format, and the file system after the call is the file
  system before it: no staging and no write has happened.
\<close>

theorem save_file_bad_format:
  assumes "format \<noteq> Some ''text''" and "format \<noteq> Some ''base64''"
  shows "save_file root_dir os_path content format s =
           (Inl (HTTPError 400 bad_format_message None), s)"
  using assms by (simp add: save_file_def raiseE_def)

theorem save_file_bad_format_witness:
  "Some ''xml'' \<noteq> Some ''text'' \<and> Some ''xml'' \<noteq> Some ''base64'' \<and>
   save_file ''/srv'' ''/srv/a.txt'' [104, 105] (Some ''xml'') fs_example =
     (Inl (HTTPError 400 bad_format_message None), fs_example)"
  using save_file_bad_format
          [of "Some ''xml''" "''/srv''" "''/srv/a.txt''" "[104, 105]" fs_example]
  by simp

text \<open>
  C10. A call of \<open>_save_file\<close> with format \<open>base64\<close> and a content that holds a character
  outside ASCII fails with the 400 error of an encoding error: the ASCII encoding fails,
  the base64 decoder is never reached, and the file system is unchanged.
\<close>

theorem save_file_non_ascii_base64:
  assumes "\<exists>c \<in> set content. 128 \<le> c"
  shows "\<exists>msg. encode_ascii content = Inl (UnicodeError msg) \<and>
           save_file root_dir os_path content (Some ''base64'') s =
             (Inl (HTTPError 400 (''Encoding error saving '' @ os_path @ '': '' @ msg) None), s)"
proof -
  from assms have "\<not> (\<forall>c \<in> set content. c < 128)"
    by (auto simp: not_less)
  then show ?thesis
    by (simp add: save_file_def encode_ascii_def raiseE_def)
qed

theorem save_file_non_ascii_base64_witness:
  "(\<exists>c \<in> set [65, 233 :: nat]. 128 \<le> c) \<and>
   (\<exists>msg. encode_ascii [65, 233] = Inl (UnicodeError msg) \<and>
      save_file ''/srv'' ''/srv/a.bin'' [65, 233] (Some ''base64'') fs_example =
        (Inl (HTTPError 400 (''Encoding error saving '' @ ''/srv/a.bin'' @ '': '' @ msg) None),
         fs_example))"
  using save_file_non_ascii_base64 [of "[65, 233]" "''/srv''" "''/srv/a.bin''" fs_example]
  by simp

section \<open>Reading generic files\<close>

text \<open>
  C5. Let the file at \<open>os_path\<close> be a regular file whose reading yields the bytes
  \<open>bcontent\<close>, and let these bytes not be valid UTF-8. Then \<open>_read_file\<close> with the explicit
  format \<open>text\<close> fails with the 400 error "is not UTF-8 encoded" (reason "bad format"),
  and \<open>_read_file\<close> with no format succeeds and returns the base64 encoding of the raw
  bytes with format \<open>base64\<close>.
\<close>

theorem read_file_not_utf8:
  assumes "isfile os_path s"
    and "open_mixin root_dir os_path ModeRB fo_read s = (Inr bcontent, s')"
    and "utf8_decode_loop 0 0 0x80 0xBF bcontent = None"
  shows "read_file root_dir os_path (Some ''text'') s =
           (Inl (HTTPError 400 (os_path @ '' is not UTF-8 encoded'') (Some ''bad format'')), s')
       \<and> read_file root_dir os_path None s =
           (Inr (map unat (encodestring bcontent), ''base64''), s')"
  using assms by (simp add: read_file_after_open)

theorem read_file_not_utf8_witness:
  "isfile ''/srv/bad.bin'' fs_example \<and>
   open_mixin ''/srv'' ''/srv/bad.bin'' ModeRB fo_read fs_example = (Inr [255, 254], fs_example) \<and>
   utf8_decode_loop 0 0 0x80 0xBF [255, 254] = None \<and>
   read_file ''/srv'' ''/srv/bad.bin'' (Some ''text'') fs_example =
     (Inl (HTTPError 400 (''/srv/bad.bin'' @ '' is not UTF-8 encoded'') (Some ''bad format'')),
      fs_example) \<and>
   read_file ''/srv'' ''/srv/bad.bin'' None fs_example =
     (Inr (map unat (encodestring [255, 254]), ''base64''), fs_example)"
proof -
  have n: "nodes fs_example ''/srv/bad.bin'' = Some (File [255, 254])"
    by (simp add: fs_example_def)
  have f: "\<And>op. fault fs_example op ''/srv/bad.bin'' = None"
    by (simp add: fs_example_def)
  have h1: "isfile ''/srv/bad.bin'' fs_example"
    by (rule isfile_regular [OF n f])
  have h2: "open_mixin ''/srv'' ''/srv/bad.bin'' ModeRB fo_read fs_example
              = (Inr [255, 254], fs_example)"
    by (rule open_read_regular [OF n f f f f])
  have h3: "utf8_decode_loop 0 0 0x80 0xBF [255, 254 :: byte] = None"
    by simp
  from read_file_not_utf8 [OF h1 h2 h3] h1 h2 h3 show ?thesis by simp
qed

text \<open>
  C8. Whenever \<open>_read_file\<close> returns with format \<open>base64\<close>, under whatever format hint,
  the content is \<open>base64.encodestring\<close> of the raw bytes read. For a non-empty file it
  ends in a newline, and its newlines are exactly at the end of every line of 76
  characters and at the end of the content: the encoding is MIME style, not a single line.
\<close>

theorem read_file_base64_mime:
  assumes "read_file root_dir os_path format s = (Inr (content, ''base64''), s')"
  shows "\<exists>bcontent.
           open_mixin root_dir os_path ModeRB fo_read s = (Inr bcontent, s') \<and>
           content = map unat (encodestring bcontent) \<and>
           (bcontent \<noteq> [] \<longrightarrow> content \<noteq> [] \<and> last content = 10) \<and>
           (\<forall>i < length content.
              (content ! i = 10) = (i mod 77 = 76 \<or> Suc i = length content))"
proof -
  from read_file_returns [OF assms] obtain bcontent
    where f: "isfile os_path s"
      and o: "open_mixin root_dir os_path ModeRB fo_read s = (Inr bcontent, s')"
    by auto
  from assms read_file_after_open [OF f o, of format]
  have c: "content = map unat (encodestring bcontent)"
    by (auto split: if_splits option.splits)
  have ne: "bcontent \<noteq> [] \<longrightarrow> encodestring bcontent \<noteq> []"
    by (auto simp: encodestring_line)
  have l: "bcontent \<noteq> [] \<longrightarrow> last content = 10"
    using encodestring_last [of bcontent] ne by (auto simp: c last_map LF_def)
  have n: "\<forall>i < length content.
             (content ! i = 10) = (i mod 77 = 76 \<or> Suc i = length content)"
  proof (intro allI impI)
    fix i assume "i < length content"
    then have i: "i < length (encodestring bcontent)" by (simp add: c)
    have "(content ! i = 10) = (encodestring bcontent ! i = LF)"
      using i by (simp add: c word_unat_eq_iff [of _ LF]) (simp add: LF_def)
    with encodestring_newlines [OF i] show
      "(content ! i = 10) = (i mod 77 = 76 \<or> Suc i = length content)"
      by (simp add: c)
  qed
  from o c ne l n show ?thesis by auto
qed

theorem read_file_base64_mime_witness:
  "read_file ''/srv'' ''/srv/bad.bin'' None fs_example =
     (Inr ([47, 47, 52, 61, 10], ''base64''), fs_example) \<and>
   (\<exists>bcontent.
      open_mixin ''/srv'' ''/srv/bad.bin'' ModeRB fo_read fs_example = (Inr bcontent, fs_example) \<and>
      [47, 47, 52, 61, 10] = map unat (encodestring bcontent) \<and>
      (bcontent \<noteq> [] \<longrightarrow> [47, 47, 52, 61, 10 :: nat] \<noteq> [] \<and> last [47, 47, 52, 61, 10 :: nat] = 10) \<and>
      (\<forall>i < length [47, 47, 52, 61, 10 :: nat].
         ([47, 47, 52, 61, 10 :: nat] ! i = 10)
           = (i mod 77 = 76 \<or> Suc i = length [47, 47, 52, 61, 10 :: nat])))"
proof -
  have n: "nodes fs_example ''/srv/bad.bin'' = Some (File [255, 254])"
    by (simp add: fs_example_def)
  have f: "\<And>op. fault fs_example op ''/srv/bad.bin'' = None"
    by (simp add: fs_example_def)
  have h1: "isfile ''/srv/bad.bin'' fs_example"
    by (rule isfile_regular [OF n f])
  have h2: "open_mixin ''/srv'' ''/srv/bad.bin'' ModeRB fo_read fs_example
              = (Inr [255, 254], fs_example)"
    by (rule open_read_regular [OF n f f f f])
  have h: "read_file ''/srv'' ''/srv/bad.bin'' None fs_example =
             (Inr ([47, 47, 52, 61, 10], ''base64''), fs_example)"
    by (simp add: read_file_after_open [OF h1 h2] encodestring_255_254)
  from read_file_base64_mime [OF h] h show ?thesis by blast
qed

section \<open>Resolution of API paths\<close>

text \<open>
  C1. \<open>_get_os_path\<close> is to fail with the 404 error exactly when the normalized absolute
  path lies outside root, comparing both sides with a trailing separator, so that the
  sibling directory \<open>/root2\<close> is rejected against the root \<open>/root\<close>. The code appends the
  separator to the path only: with root \<open>/root\<close> the API path \<open>../root2/secret\<close> resolves
  successfully, although its absolute path \<open>/root2/secret\<close> does not lie below \<open>/root/\<close>.
\<close>

theorem get_os_path_sibling_escapes:
  "get_os_path ''/'' ''/root'' ''../root2/secret'' = Inr ''/root/../root2/secret'' \<and>
   abspath ''/'' ''/root/../root2/secret'' = ''/root2/secret'' \<and>
   \<not> startswith (''/root2/secret'' @ ''/'') (abspath ''/'' ''/root'' @ ''/'')"
  by (simp add: get_os_path_def to_os_path_def abspath_def normpath_def startswith_def
        endswith_def strip_def rstrip_def Let_def)

section \<open>Status codes of the errors\<close>

text \<open>
  C9. Every error kind reaches the caller as an \<open>HTTPError\<close> with a fixed status code:
  a path outside root as 404; a permission failure translated by \<open>perm_to_403\<close> as 403;
  a read of something that is not a regular file, a \<open>text\<close> read of bytes that are not
  UTF-8, a notebook that the reader of \<open>nbformat\<close> rejects, a write with a bad format
  and a write whose content cannot be encoded or decoded, all as 400. So the status
  code tells containment and permission failures apart from the rest, and does not
  tell the kinds with code 400 apart.
\<close>

theorem http_status_of_error_kinds:
  "(get_os_path cwd root_a path = Inl e_a \<longrightarrow> status_code e_a = Some 404)
 \<and> (m s_b = (Inl (OSError n filename), s_b') \<and> (n = EPERM \<or> n = EACCES) \<longrightarrow>
      (\<exists>e. perm_to_403 root_b p_b m s_b = (Inl e, s_b') \<and> status_code e = Some 403))
 \<and> (\<not> isfile p_c s_c \<longrightarrow>
      (\<exists>e. read_file root_c p_c format_c s_c = (Inl e, s_c) \<and> status_code e = Some 400))
 \<and> (isfile p_d s_d \<and> open_mixin root_d p_d ModeRB fo_read s_d = (Inr b_d, s_d')
      \<and> utf8_decode_loop 0 0 0x80 0xBF b_d = None \<longrightarrow>
      (\<exists>e. read_file root_d p_d (Some ''text'') s_d = (Inl e, s_d') \<and> status_code e = Some 400))
 \<and> (io_open p_e ModeR s_e = (Inr f, s_eo) \<and> nbformat_read f = (Inl e_e, written)
      \<and> fo_close (fo_written f written) s_eo = (Inr (), s_ec) \<longrightarrow>
      (\<exists>e. read_notebook nbformat_read root_e p_e s_e = (Inl e, s_ec)
           \<and> status_code e = Some 400))
 \<and> (format_f \<noteq> Some ''text'' \<and> format_f \<noteq> Some ''base64'' \<longrightarrow>
      (\<exists>e. save_file root_f p_f content_f format_f s_f = (Inl e, s_f)
           \<and> status_code e = Some 400))
 \<and> (format_g = Some ''text'' \<and> encode_utf8 content_g = Inl e_g
      \<or> format_g = Some ''base64'' \<and> encode_ascii content_g = Inl e_g
      \<or> format_g = Some ''base64''
          \<and> (\<exists>b. encode_ascii content_g = Inr b \<and> decodestring b = Inl e_g) \<longrightarrow>
      (\<exists>e. save_file root_g p_g content_g format_g s_g = (Inl e, s_g)
           \<and> status_code e = Some 400))"
proof (intro conjI impI)
  assume "get_os_path cwd root_a path = Inl e_a"
  then show "status_code e_a = Some 404"
    using get_os_path_error [of cwd root_a path e_a] by simp
next
  assume "m s_b = (Inl (OSError n filename), s_b') \<and> (n = EPERM \<or> n = EACCES)"
  then show "\<exists>e. perm_to_403 root_b p_b m s_b = (Inl e, s_b') \<and> status_code e = Some 403"
    using perm_to_403_permission [of m s_b n filename s_b' root_b p_b] by auto
next
  assume "\<not> isfile p_c s_c"
  then show "\<exists>e. read_file root_c p_c format_c s_c = (Inl e, s_c) \<and> status_code e = Some 400"
    by (simp add: read_file_not_file)
next
  assume "isfile p_d s_d \<and> open_mixin root_d p_d ModeRB fo_read s_d = (Inr b_d, s_d')
          \<and> utf8_decode_loop 0 0 0x80 0xBF b_d = None"
  then show "\<exists>e. read_file root_d p_d (Some ''text'') s_d = (Inl e, s_d')
                 \<and> status_code e = Some 400"
    by (simp add: read_file_after_open)
next
  assume "io_open p_e ModeR s_e = (Inr f, s_eo) \<and> nbformat_read f = (Inl e_e, written)
          \<and> fo_close (fo_written f written) s_eo = (Inr (), s_ec)"
  then show "\<exists>e. read_notebook nbformat_read root_e p_e s_e = (Inl e, s_ec)
                 \<and> status_code e = Some 400"
    by (simp add: read_notebook_unreadable)
next
  assume "format_f \<noteq> Some ''text'' \<and> format_f \<noteq> Some ''base64''"
  then show "\<exists>e. save_file root_f p_f content_f format_f s_f = (Inl e, s_f)
                 \<and> status_code e = Some 400"
    by (simp add: save_file_def raiseE_def)
next
  assume "format_g = Some ''text'' \<and> encode_utf8 content_g = Inl e_g
      \<or> format_g = Some ''base64'' \<and> encode_ascii content_g = Inl e_g
      \<or> format_g = Some ''base64''
          \<and> (\<exists>b. encode_ascii content_g = Inr b \<and> decodestring b = Inl e_g)"
  then show "\<exists>e. save_file root_g p_g content_g format_g s_g = (Inl e, s_g)
                 \<and> status_code e = Some 400"
    by (simp add: save_file_encoding_error)
qed

theorem http_status_of_error_kinds_witness:
  "(get_os_path ''/'' ''/root'' ''../etc/passwd''
      = Inl (HTTPError 404 ''../etc/passwd is outside root contents directory'' None)
    \<and> io_open ''/srv/a.txt'' ModeRB fs_denied
        = (Inl (OSError EACCES (Some ''/srv/a.txt'')), fs_denied)
    \<and> \<not> isfile ''/srv'' fs_example
    \<and> isfile ''/srv/bad.bin'' fs_example
    \<and> open_mixin ''/srv'' ''/srv/bad.bin'' ModeRB fo_read fs_example
        = (Inr [255, 254], fs_example)
    \<and> utf8_decode_loop 0 0 0x80 0xBF [255, 254] = None
    \<and> io_open ''/srv/a.txt'' ModeR fs_example
        = (Inr \<lparr>fo_name = ''/srv/a.txt'', fo_mode = ModeR, fo_data = [104, 105],
                 fo_read_err = None, fo_buf = []\<rparr>,
           fs_example\<lparr>opened := [''/srv/a.txt'']\<rparr>)
    \<and> fo_close (fo_written \<lparr>fo_name = ''/srv/a.txt'', fo_mode = ModeR, fo_data = [104, 105],
                               fo_read_err = None, fo_buf = []\<rparr> [])
          (fs_example\<lparr>opened := [''/srv/a.txt'']\<rparr>) = (Inr (), fs_example)
    \<and> Some ''xml'' \<noteq> Some ''text'' \<and> Some ''xml'' \<noteq> Some ''base64''
    \<and> encode_ascii [65, 65] = Inr [65, 65]
    \<and> decodestring [65, 65] = Inl (BinasciiError ''Incorrect padding''))
 \<and> (status_code (HTTPError 404 ''../etc/passwd is outside root contents directory'' None)
      = Some 404
    \<and> (\<exists>e. perm_to_403 ''/srv'' ''/srv/a.txt'' (io_open ''/srv/a.txt'' ModeRB) fs_denied
              = (Inl e, fs_denied) \<and> status_code e = Some 403)
    \<and> (\<exists>e. read_file ''/srv'' ''/srv'' None fs_example = (Inl e, fs_example)
            \<and> status_code e = Some 400)
    \<and> (\<exists>e. read_file ''/srv'' ''/srv/bad.bin'' (Some ''text'') fs_example = (Inl e, fs_example)
            \<and> status_code e = Some 400)
    \<and> (\<exists>e. read_notebook (\<lambda>f. (Inl (OtherError ''Notebook does not appear to be JSON''), []))
              ''/srv'' ''/srv/a.txt'' fs_example = (Inl e, fs_example)
            \<and> status_code e = Some 400)
    \<and> (\<exists>e. save_file ''/srv'' ''/srv/a.txt'' [104, 105] (Some ''xml'') fs_example
              = (Inl e, fs_example) \<and> status_code e = Some 400)
    \<and> (\<exists>e. save_file ''/srv'' ''/srv/a.txt'' [65, 65] (Some ''base64'') fs_example
              = (Inl e, fs_example) \<and> status_code e = Some 400))"
proof -
  have na: "nodes fs_example ''/srv/a.txt'' = Some (File [104, 105])"
    by (simp add: fs_example_def)
  have nb: "nodes fs_example ''/srv/bad.bin'' = Some (File [255, 254])"
    by (simp add: fs_example_def)
  have nf: "\<And>op p. fault fs_example op p = None"
    by (simp add: fs_example_def)
  have op: "opened fs_example = []"
    by (simp add: fs_example_def)
  have ha: "get_os_path ''/'' ''/root'' ''../etc/passwd''
              = Inl (HTTPError 404 ''../etc/passwd is outside root contents directory'' None)"
    by (simp add: get_os_path_def to_os_path_def abspath_def normpath_def startswith_def
          endswith_def strip_def rstrip_def Let_def)
  have hb: "io_open ''/srv/a.txt'' ModeRB fs_denied
              = (Inl (OSError EACCES (Some ''/srv/a.txt'')), fs_denied)"
    by (simp add: io_open_def bindE_def syscall_def fs_denied_def)
  have hc: "\<not> isfile ''/srv'' fs_example"
    by (simp add: isfile_def os_stat_def bindE_def syscall_def fs_example_def follow_not_link)
  have hd1: "isfile ''/srv/bad.bin'' fs_example"
    by (rule isfile_regular [OF nb nf])
  have hd2: "open_mixin ''/srv'' ''/srv/bad.bin'' ModeRB fo_read fs_example
               = (Inr [255, 254], fs_example)"
    by (rule open_read_regular [OF nb nf nf nf nf])
  have hd3: "utf8_decode_loop 0 0 0x80 0xBF [255, 254 :: byte] = None"
    by simp
  have he1: "io_open ''/srv/a.txt'' ModeR fs_example
               = (Inr \<lparr>fo_name = ''/srv/a.txt'', fo_mode = ModeR, fo_data = [104, 105],
                        fo_read_err = None, fo_buf = []\<rparr>,
                  fs_example\<lparr>opened := [''/srv/a.txt'']\<rparr>)"
    using io_open_read_regular [OF na nf, of ModeR] by (simp add: nf op)
  have he2: "fo_close (fo_written \<lparr>fo_name = ''/srv/a.txt'', fo_mode = ModeR,
                 fo_data = [104, 105], fo_read_err = None, fo_buf = []\<rparr> [])
               (fs_example\<lparr>opened := [''/srv/a.txt'']\<rparr>) = (Inr (), fs_example)"
    using fo_close_clean [of "fs_example\<lparr>opened := [''/srv/a.txt'']\<rparr>"
            "\<lparr>fo_name = ''/srv/a.txt'', fo_mode = ModeR, fo_data = [104, 105],
              fo_read_err = None, fo_buf = []\<rparr>" "[104, 105]"]
    by (simp add: na nf fo_written_def op [symmetric])
  have hg1: "encode_ascii [65, 65] = Inr [65, 65]"
    by (simp add: encode_ascii_def)
  have hg2: "decodestring [65, 65] = Inl (BinasciiError ''Incorrect padding'')"
    by (simp add: decodestring_def table_a2b_def PAD_def)
  note T = http_status_of_error_kinds
    [where cwd = "''/''" and root_a = "''/root''" and path = "''../etc/passwd''"
       and e_a = "HTTPError 404 ''../etc/passwd is outside root contents directory'' None"
       and m = "io_open ''/srv/a.txt'' ModeRB" and s_b = fs_denied and n = EACCES
       and filename = "Some ''/srv/a.txt''" and s_b' = fs_denied
       and root_b = "''/srv''" and p_b = "''/srv/a.txt''"
       and p_c = "''/srv''" and s_c = fs_example and root_c = "''/srv''" and format_c = None
       and p_d = "''/srv/bad.bin''" and s_d = fs_example and root_d = "''/srv''"
       and b_d = "[255, 254]" and s_d' = fs_example
       and p_e = "''/srv/a.txt''" and s_e = fs_example
       and f = "\<lparr>fo_name = ''/srv/a.txt'', fo_mode = ModeR, fo_data = [104, 105],
                  fo_read_err = None, fo_buf = []\<rparr>"
       and s_eo = "fs_example\<lparr>opened := [''/srv/a.txt'']\<rparr>"
       and nbformat_read = "\<lambda>f. (Inl (OtherError ''Notebook does not appear to be JSON''), [])"
       and e_e = "OtherError ''Notebook does not appear to be JSON''" and written = "[]"
       and s_ec = fs_example and root_e = "''/srv''"
       and format_f = "Some ''xml''" and root_f = "''/srv''" and p_f = "''/srv/a.txt''"
       and content_f = "[104, 105]" and s_f = fs_example
       and format_g = "Some ''base64''" and content_g = "[65, 65]"
       and e_g = "BinasciiError ''Incorrect padding''"
       and root_g = "''/srv''" and p_g = "''/srv/a.txt''" and s_g = fs_example]
  from T ha have ca: "status_code
      (HTTPError 404 ''../etc/passwd is outside root contents directory'' None) = Some 404"
    by blast
  from T hb have cb: "\<exists>e. perm_to_403 ''/srv'' ''/srv/a.txt''
      (io_open ''/srv/a.txt'' ModeRB) fs_denied = (Inl e, fs_denied) \<and> status_code e = Some 403"
    by blast
  from T hc have cc: "\<exists>e. read_file ''/srv'' ''/srv'' None fs_example = (Inl e, fs_example)
      \<and> status_code e = Some 400"
    by blast
  from T hd1 hd2 hd3 have cd: "\<exists>e. read_file ''/srv'' ''/srv/bad.bin'' (Some ''text'')
      fs_example = (Inl e, fs_example) \<and> status_code e = Some 400"
    by blast
  from T he1 he2 have ce: "\<exists>e. read_notebook
      (\<lambda>f. (Inl (OtherError ''Notebook does not appear to be JSON''), []))
      ''/srv'' ''/srv/a.txt'' fs_example = (Inl e, fs_example) \<and> status_code e = Some 400"
    by blast
  from T have cf: "\<exists>e. save_file ''/srv'' ''/srv/a.txt'' [104, 105] (Some ''xml'') fs_example
      = (Inl e, fs_example) \<and> status_code e = Some 400"
    by blast
  from T hg1 hg2 have cg: "\<exists>e. save_file ''/srv'' ''/srv/a.txt'' [65, 65] (Some ''base64'')
      fs_example = (Inl e, fs_example) \<and> status_code e = Some 400"
    by blast
  from ha hb hc hd1 hd2 hd3 he1 he2 hg1 hg2 ca cb cc cd ce cf cg show ?thesis
    by simp
qed

end
